theory Spec2Isabelle
  imports Complex_Main
begin

section \<open>Values shared by the simulator, the sensors and the depth shader\<close>

text \<open>
  The C++ sources use \<^verbatim>\<open>int\<close> for identifiers and sizes and \<^verbatim>\<open>float\<close> for
  geometry. No arithmetic is done on the identifiers (they are compared, stored and passed
  on), so they are modelled as \<^typ>\<open>int\<close>; the one signed-to-unsigned conversion, in
  \<^verbatim>\<open>sceneID < sceneID_.size()\<close>, is guarded by \<^verbatim>\<open>sceneID >= 0\<close> and is written
  with \<^const>\<open>nat\<close>. The simulator computes nothing with the geometry it is given: it
  passes vectors, matrices and rotations on to the physics manager and builds the
  constants 0 and 1, so there a \<^typ>\<open>real\<close> stands for the float. The depth conversion
  does compute; its floats are the type \<open>Float\<close> below, with infinities, NaN and the
  negative zero.

  A member \<^verbatim>\<open>name_\<close> of a C++ class is the record field \<open>m_name\<close>.
\<close>

type_synonym Vector3 = "real \<times> real \<times> real"
type_synonym Vector4 = "real list"
type_synonym Matrix4 = "real list list"
type_synonym Quaternion = "Vector3 \<times> real"
type_synonym Vector2i = "int \<times> int"

text \<open>\<^verbatim>\<open>Magnum::Vector4(1)\<close>: every component is the given value.\<close>

definition Vector4_fill :: "real \<Rightarrow> Vector4" where
  "Vector4_fill v = [v, v, v, v]"

text \<open>\<^verbatim>\<open>Magnum::Matrix4::fromDiagonal\<close>; a matrix is the list of its columns.\<close>

definition fromDiagonal :: "Vector4 \<Rightarrow> Matrix4" where
  "fromDiagonal d =
     [[d ! 0, 0, 0, 0], [0, d ! 1, 0, 0], [0, 0, d ! 2, 0], [0, 0, 0, d ! 3]]"

text \<open>\<^verbatim>\<open>Magnum::Vector3()\<close> is zero-initialised, \<^verbatim>\<open>Magnum::Quaternion()\<close> is the
  identity rotation.\<close>

definition Vector3_default :: Vector3 where
  "Vector3_default = (0, 0, 0)"

definition Quaternion_default :: Quaternion where
  "Quaternion_default = ((0, 0, 0), 1)"

definition identity_Matrix4 :: Matrix4 where
  "identity_Matrix4 = [[1, 0, 0, 0], [0, 1, 0, 0], [0, 0, 1, 0], [0, 0, 0, 1]]"

section \<open>SimulatorConfiguration and its equality\<close>

text \<open>The fields of \<^verbatim>\<open>SceneConfiguration\<close> are those the bindings export. The
  \<^verbatim>\<open>std::map\<close> of file paths is the list of its entries, in the order of the keys;
  \<^const>\<open>map_of\<close> looks a key up.\<close>

record SceneConfiguration =
  dataset :: string
  id_scene :: string
  filepaths :: "(string \<times> string) list"
  sceneUpDir :: Vector3
  sceneFrontDir :: Vector3
  sceneScaleUnit :: real

text \<open>Modelled from the spec: \<^verbatim>\<open>operator==\<close> of \<^verbatim>\<open>SceneConfiguration\<close> is missing
  from the sources; the scene locator is compared structurally.\<close>

definition scene_eq :: "SceneConfiguration \<Rightarrow> SceneConfiguration \<Rightarrow> bool" where
  "scene_eq a b \<longleftrightarrow> a = b"

record SimulatorConfiguration =
  scene :: SceneConfiguration
  defaultAgentId :: int
  defaultCameraUuid :: string
  gpuDeviceId :: int
  width :: int
  height :: int
  compressTextures :: bool
  createRenderer :: bool
  enablePhysics :: bool
  physicsConfigFile :: string

text \<open>\<^verbatim>\<open>std::string::compare\<close> returns 0 exactly on equal strings.\<close>

definition string_compare_is_zero :: "string \<Rightarrow> string \<Rightarrow> bool" where
  "string_compare_is_zero a b \<longleftrightarrow> a = b"

text \<open>\<^verbatim>\<open>operator==(const SimulatorConfiguration&, const SimulatorConfiguration&)\<close>,
  conjunct by conjunct.\<close>

definition operator_eq :: "SimulatorConfiguration \<Rightarrow> SimulatorConfiguration \<Rightarrow> bool" where
  "operator_eq a b \<longleftrightarrow>
     scene_eq (scene a) (scene b) \<and> defaultAgentId a = defaultAgentId b \<and>
     defaultCameraUuid a = defaultCameraUuid b \<and>
     compressTextures a = compressTextures b \<and>
     createRenderer a = createRenderer b \<and>
     enablePhysics a = enablePhysics b \<and>
     string_compare_is_zero (physicsConfigFile a) (physicsConfigFile b)"

definition operator_neq :: "SimulatorConfiguration \<Rightarrow> SimulatorConfiguration \<Rightarrow> bool" where
  "operator_neq a b \<longleftrightarrow> \<not> operator_eq a b"

text \<open>A configuration used in the examples below: a scene given by its id only.\<close>

definition exampleScene :: "string \<Rightarrow> SceneConfiguration" where
  "exampleScene f =
     \<lparr>dataset = ''default'', id_scene = f, filepaths = [],
      sceneUpDir = (0, 1, 0), sceneFrontDir = (0, 0, -1), sceneScaleUnit = 1\<rparr>"

definition exampleConfig :: "string \<Rightarrow> SimulatorConfiguration" where
  "exampleConfig f =
     \<lparr>scene = exampleScene f, defaultAgentId = 0, defaultCameraUuid = ''rgba_camera'',
      gpuDeviceId = 0, width = 640, height = 480, compressTextures = False,
      createRenderer = True, enablePhysics = False, physicsConfigFile = ''default.phys''\<rparr>"

section \<open>Floats\<close>

















section \<open>Depth unprojection\<close>







section \<open>Sensor\<close>

datatype error = InvalidArgument string | RuntimeError string | OutOfRange

text \<open>Of \<^verbatim>\<open>SensorSpec\<close> the sensor code at hand reads the resolution only; it is in
  H x W order: index 0 is the row count, index 1 the column count.\<close>

record SensorSpec =
  uuid :: string
  resolution :: Vector2i
  channels :: int

text \<open>Of a \<^verbatim>\<open>RenderTarget\<close> the sensor reads \<^verbatim>\<open>framebufferSize()\<close>.\<close>

record RenderTarget =
  rt_framebufferSize :: Vector2i

record Sensor =
  m_spec :: SensorSpec
  m_tgt :: "RenderTarget option"

definition framebufferSize :: "Sensor \<Rightarrow> Vector2i" where
  "framebufferSize sn = (snd (resolution (m_spec sn)), fst (resolution (m_spec sn)))"

definition hasRenderTarget :: "Sensor \<Rightarrow> bool" where
  "hasRenderTarget sn \<longleftrightarrow> m_tgt sn \<noteq> None"

definition bindRenderTarget :: "RenderTarget \<Rightarrow> Sensor \<Rightarrow> error + Sensor" where
  "bindRenderTarget tgt sn =
     (if rt_framebufferSize tgt \<noteq> framebufferSize sn
      then Inl (RuntimeError ''RenderTarget is not the correct size'')
      else Inr (sn\<lparr>m_tgt := Some tgt\<rparr>))"

definition renderTarget :: "Sensor \<Rightarrow> error + RenderTarget" where
  "renderTarget sn =
     (if \<not> hasRenderTarget sn then Inl (RuntimeError ''Sensor has no rendering target'')
      else Inr (the (m_tgt sn)))"

section \<open>Collaborators of the simulator\<close>

text \<open>Modelled from the spec: the enumeration \<^verbatim>\<open>assets::AssetType\<close> is declared outside
  the sources at hand. It has the three embedded-semantics tags the simulator names and,
  for every other classification, a tag without embedded semantics.\<close>

datatype AssetType = UNKNOWN | FRL_INSTANCE_MESH | SUNCG_SCENE | INSTANCE_MESH

record AssetInfo =
  type :: AssetType
  filepath :: string

text \<open>A \<^verbatim>\<open>SemanticScene\<close> is represented by the house loaders that have been run on
  it since \<^verbatim>\<open>SemanticScene::create()\<close>, in order, each with the file it was given.\<close>

datatype HouseLoad = Mp3dHouse string | SuncgHouse string

type_synonym SemanticScene = "HouseLoad list"

text \<open>
  The collaborators whose code is outside the simulator are parameters: the filesystem
  probe (\<open>io_\<close>), the asset classification, the resource manager (\<open>rm_\<close>, state
  \<open>'r\<close>) and the physics manager (\<open>pm_\<close>, state \<open>'p\<close>). \<open>'g\<close> is the content of
  one scene graph (root node and drawables). A call that may change the state of a
  collaborator returns the new state. \<^verbatim>\<open>loadScene\<close> with a physics manager receives the
  simulator's \<^verbatim>\<open>physicsManager_\<close> pointer by reference and may rebind it.
\<close>

record ('g, 'p, 'r) Env =
  io_exists :: "string \<Rightarrow> bool"
  io_changeExtension :: "string \<Rightarrow> string \<Rightarrow> string"
  io_removeExtension :: "string \<Rightarrow> string"
  fromPath :: "string \<Rightarrow> AssetInfo"
  newSceneGraph :: 'g
  rm_compressTextures :: "bool \<Rightarrow> 'r \<Rightarrow> 'r"
  rm_loadScene :: "AssetInfo \<Rightarrow> 'g \<Rightarrow> 'r \<Rightarrow> bool \<times> 'g \<times> 'r"
  rm_loadScenePhysics ::
    "AssetInfo \<Rightarrow> 'p option \<Rightarrow> 'g \<Rightarrow> string \<Rightarrow> 'r \<Rightarrow> bool \<times> 'p option \<times> 'g \<times> 'r"
  pm_reset :: "'p \<Rightarrow> 'p"
  pm_addObject :: "int \<Rightarrow> 'g \<Rightarrow> 'p \<Rightarrow> int \<times> 'g \<times> 'p"
  pm_removeObject :: "int \<Rightarrow> 'p \<Rightarrow> 'p"
  pm_applyTorque :: "int \<Rightarrow> Vector3 \<Rightarrow> 'p \<Rightarrow> 'p"
  pm_applyForce :: "int \<Rightarrow> Vector3 \<Rightarrow> Vector3 \<Rightarrow> 'p \<Rightarrow> 'p"
  pm_setTransformation :: "int \<Rightarrow> Matrix4 \<Rightarrow> 'p \<Rightarrow> 'p"
  pm_getTransformation :: "int \<Rightarrow> 'p \<Rightarrow> Matrix4 \<times> 'p"
  pm_setTranslation :: "int \<Rightarrow> Vector3 \<Rightarrow> 'p \<Rightarrow> 'p"
  pm_getTranslation :: "int \<Rightarrow> 'p \<Rightarrow> Vector3 \<times> 'p"
  pm_setRotation :: "int \<Rightarrow> Quaternion \<Rightarrow> 'p \<Rightarrow> 'p"
  pm_getRotation :: "int \<Rightarrow> 'p \<Rightarrow> Quaternion \<times> 'p"

text \<open>Modelled from the spec: the constant \<^verbatim>\<open>ID_UNDEFINED\<close> is declared outside the
  sources at hand; it is the sentinel for an undefined id.\<close>

definition ID_UNDEFINED :: int where
  "ID_UNDEFINED = -1"

text \<open>Modelled from the spec: \<^verbatim>\<open>SceneManager\<close> is missing from the sources. It owns the
  scene graphs; \<^verbatim>\<open>initSceneGraph\<close> allocates a fresh, empty graph and returns its handle,
  the handles being 0, 1, 2, ... in the order of allocation; \<^verbatim>\<open>getSceneGraph\<close> fails on a
  handle that was never issued. No graph is ever deleted.\<close>

type_synonym 'g SceneManager = "'g list"

definition initSceneGraph :: "('g, 'p, 'r) Env \<Rightarrow> 'g SceneManager \<Rightarrow> int \<times> 'g SceneManager" where
  "initSceneGraph env sm = (int (length sm), sm @ [newSceneGraph env])"

definition getSceneGraph :: "'g SceneManager \<Rightarrow> int \<Rightarrow> 'g option" where
  "getSceneGraph sm sceneID =
     (if 0 \<le> sceneID \<and> nat sceneID < length sm then Some (sm ! nat sceneID) else None)"

definition putSceneGraph :: "'g SceneManager \<Rightarrow> int \<Rightarrow> 'g \<Rightarrow> 'g SceneManager" where
  "putSceneGraph sm sceneID g = sm[nat sceneID := g]"

section \<open>Simulator\<close>

text \<open>The members of \<^verbatim>\<open>Simulator\<close> that \<^verbatim>\<open>reconfigure\<close>, \<^verbatim>\<open>reset\<close> and the object
  operations read or write. The windowless context is represented by the GPU device it
  was created for, the renderer by the width and height it was created with.\<close>

record ('g, 'p, 'r) Simulator =
  m_config :: SimulatorConfiguration
  m_sceneManager :: "'g SceneManager"
  m_sceneID :: "int list"
  m_activeSceneID :: int
  m_activeSemanticSceneID :: int
  m_context :: "int option"
  m_renderer :: "(int \<times> int) option"
  m_resourceManager :: 'r
  m_physicsManager :: "'p option"
  m_semanticScene :: "SemanticScene option"

text \<open>A call either returns or throws; the members keep what was written to them before
  the throw, so both outcomes carry the state.\<close>

datatype 's outcome = Returns 's | Throws error 's

primrec returned :: "'s outcome \<Rightarrow> bool" where
  "returned (Returns s) = True"
| "returned (Throws e s) = False"

primrec stateOf :: "'s outcome \<Rightarrow> 's" where
  "stateOf (Returns s) = s"
| "stateOf (Throws e s) = s"

text \<open>Modelled from the spec: the member initialisers are in the missing header. Before
  the first \<^verbatim>\<open>reconfigure\<close> no graph is allocated, both active ids are undefined and no
  context, renderer, physics world or semantic scene exists; the stored configuration is
  the default-constructed one, here a parameter.\<close>

definition newSimulator :: "SimulatorConfiguration \<Rightarrow> 'r \<Rightarrow> ('g, 'p, 'r) Simulator" where
  "newSimulator cfg0 rm =
     \<lparr>m_config = cfg0, m_sceneManager = [], m_sceneID = [],
      m_activeSceneID = ID_UNDEFINED, m_activeSemanticSceneID = ID_UNDEFINED,
      m_context = None, m_renderer = None, m_resourceManager = rm,
      m_physicsManager = None, m_semanticScene = None\<rparr>"

text \<open>\<^verbatim>\<open>Simulator::reset\<close>.\<close>

definition reset :: "('g, 'p, 'r) Env \<Rightarrow> ('g, 'p, 'r) Simulator \<Rightarrow> ('g, 'p, 'r) Simulator" where
  "reset env s =
     (if m_physicsManager s \<noteq> None
      then s\<lparr>m_physicsManager := Some (pm_reset env (the (m_physicsManager s)))\<rparr>
      else s)"

text \<open>Lines 119 to 131 of \<^verbatim>\<open>reconfigure\<close>: the semantic mesh gets a scene graph of its
  own; what \<^verbatim>\<open>loadScene\<close> returns for it is not looked at.\<close>

definition loadSemanticMesh ::
  "('g, 'p, 'r) Env \<Rightarrow> string \<Rightarrow> ('g, 'p, 'r) Simulator \<Rightarrow> ('g, 'p, 'r) Simulator outcome" where
  "loadSemanticMesh env semanticMeshFilename s =
     (let (newId, sm) = initSceneGraph env (m_sceneManager s);
          s1 = s\<lparr>m_sceneManager := sm, m_activeSemanticSceneID := newId,
                 m_sceneID := m_sceneID s @ [newId]\<rparr>
      in case getSceneGraph (m_sceneManager s1) (m_activeSemanticSceneID s1) of
           None \<Rightarrow> Throws OutOfRange s1
         | Some g \<Rightarrow>
             let semanticSceneInfo = fromPath env semanticMeshFilename;
                 (ok, g', rm') = rm_loadScene env semanticSceneInfo g (m_resourceManager s1)
             in Returns (s1\<lparr>m_sceneManager :=
                               putSceneGraph (m_sceneManager s1) (m_activeSemanticSceneID s1) g',
                             m_resourceManager := rm'\<rparr>))"

text \<open>Lines 98 to 106: the scene asset is loaded into the graph \<open>g\<close>, with the physics
  manager when physics is enabled. The result is the success flag, the physics manager,
  the graph and the resource manager after the call.\<close>

definition loadPrimaryScene ::
  "('g, 'p, 'r) Env \<Rightarrow> bool \<Rightarrow> AssetInfo \<Rightarrow> 'p option \<Rightarrow> 'g \<Rightarrow> string \<Rightarrow> 'r \<Rightarrow>
     bool \<times> 'p option \<times> 'g \<times> 'r" where
  "loadPrimaryScene env physics sceneInfo pm g physicsFile rm =
     (if physics then rm_loadScenePhysics env sceneInfo pm g physicsFile rm
      else (let (ok, g1, rm1) = rm_loadScene env sceneInfo g rm in (ok, pm, g1, rm1)))"

text \<open>Lines 84 to 140: the body of \<^verbatim>\<open>if (cfg.createRenderer)\<close>.\<close>

definition reconfigure_renderer ::
  "('g, 'p, 'r) Env \<Rightarrow> SimulatorConfiguration \<Rightarrow> string \<Rightarrow> string \<Rightarrow> AssetInfo \<Rightarrow>
     ('g, 'p, 'r) Simulator \<Rightarrow> ('g, 'p, 'r) Simulator outcome" where
  "reconfigure_renderer env cfg sceneFilename houseFilename sceneInfo s =
     (let s1 = (if m_context s = None
                then s\<lparr>m_context := Some (gpuDeviceId (m_config s))\<rparr> else s);
          s2 = s1\<lparr>m_renderer := Some (width cfg, height cfg)\<rparr>
      in case getSceneGraph (m_sceneManager s2) (m_activeSceneID s2) of
           None \<Rightarrow> Throws OutOfRange s2
         | Some g \<Rightarrow>
             let rm = rm_compressTextures env (compressTextures cfg) (m_resourceManager s2);
                 (loadSuccess, pm, g', rm') =
                    loadPrimaryScene env (enablePhysics (m_config s2)) sceneInfo
                      (m_physicsManager s2) g (physicsConfigFile cfg) rm;
                 s3 = s2\<lparr>m_sceneManager :=
                            putSceneGraph (m_sceneManager s2) (m_activeSceneID s2) g',
                          m_resourceManager := rm', m_physicsManager := pm\<rparr>
             in if \<not> loadSuccess
                then Throws (InvalidArgument (''Cannot load: '' @ sceneFilename)) s3
                else
                  (case (if io_exists env houseFilename
                         then (let semanticMeshFilename =
                                     io_removeExtension env houseFilename @ ''_semantic.ply''
                               in if io_exists env semanticMeshFilename
                                  then loadSemanticMesh env semanticMeshFilename s3
                                  else Returns s3)
                         else Returns s3) of
                     Throws e s4 \<Rightarrow> Throws e s4
                   | Returns s4 \<Rightarrow>
                       if type sceneInfo = FRL_INSTANCE_MESH \<or> type sceneInfo = SUNCG_SCENE \<or>
                          type sceneInfo = INSTANCE_MESH
                       then Returns (s4\<lparr>m_activeSemanticSceneID := m_activeSceneID s4\<rparr>)
                       else Returns s4))"

text \<open>Lines 143 to 152: the semantic scene is rebuilt; the two \<^verbatim>\<open>if\<close> statements follow
  one another.\<close>

definition reconfigure_semantic ::
  "('g, 'p, 'r) Env \<Rightarrow> string \<Rightarrow> string \<Rightarrow> AssetInfo \<Rightarrow>
     ('g, 'p, 'r) Simulator \<Rightarrow> ('g, 'p, 'r) Simulator" where
  "reconfigure_semantic env sceneFilename houseFilename sceneInfo s =
     (let sem0 = [];
          sem1 = (if io_exists env houseFilename then sem0 @ [Mp3dHouse houseFilename] else sem0);
          sem2 = (if type sceneInfo = SUNCG_SCENE then sem1 @ [SuncgHouse sceneFilename] else sem1)
      in s\<lparr>m_semanticScene := Some sem2\<rparr>)"

text \<open>The file names \<^verbatim>\<open>reconfigure\<close> resolves from the configuration (lines 59 to 70).\<close>

definition sceneFilenameOf :: "SimulatorConfiguration \<Rightarrow> string" where
  "sceneFilenameOf cfg =
     (if map_of (filepaths (scene cfg)) ''mesh'' \<noteq> None
      then the (map_of (filepaths (scene cfg)) ''mesh'')
      else id_scene (scene cfg))"

definition houseFilenameOf :: "('g, 'p, 'r) Env \<Rightarrow> SimulatorConfiguration \<Rightarrow> string" where
  "houseFilenameOf env cfg =
     (if map_of (filepaths (scene cfg)) ''house'' \<noteq> None
      then the (map_of (filepaths (scene cfg)) ''house'')
      else io_changeExtension env (sceneFilenameOf cfg) ''.house'')"

text \<open>\<^verbatim>\<open>Simulator::reconfigure\<close>.\<close>

definition reconfigure ::
  "('g, 'p, 'r) Env \<Rightarrow> SimulatorConfiguration \<Rightarrow> ('g, 'p, 'r) Simulator \<Rightarrow>
     ('g, 'p, 'r) Simulator outcome" where
  "reconfigure env cfg s =
     (if operator_eq cfg (m_config s) then Returns (reset env s)
      else
        let s1 = s\<lparr>m_config := cfg\<rparr>;
            sceneFilename = sceneFilenameOf cfg;
            houseFilename = houseFilenameOf env cfg;
            sceneInfo = fromPath env sceneFilename;
            (newId, sm) = initSceneGraph env (m_sceneManager s1);
            s2 = s1\<lparr>m_sceneManager := sm, m_activeSceneID := newId,
                    m_sceneID := m_sceneID s1 @ [newId]\<rparr>
        in case (if createRenderer cfg
                 then reconfigure_renderer env cfg sceneFilename houseFilename sceneInfo s2
                 else Returns s2) of
             Throws e s3 \<Rightarrow> Throws e s3
           | Returns s3 \<Rightarrow>
               Returns (reset env (reconfigure_semantic env sceneFilename houseFilename sceneInfo s3)))"

text \<open>What the load of the primary scene asset returns when \<^verbatim>\<open>reconfigure(cfg)\<close> reaches
  it from the state \<open>s\<close>: the graph is the one just allocated, the stored
  configuration is \<open>cfg\<close> already.\<close>

definition primaryLoad ::
  "('g, 'p, 'r) Env \<Rightarrow> SimulatorConfiguration \<Rightarrow> ('g, 'p, 'r) Simulator \<Rightarrow>
     bool \<times> 'p option \<times> 'g \<times> 'r" where
  "primaryLoad env cfg s =
     loadPrimaryScene env (enablePhysics cfg) (fromPath env (sceneFilenameOf cfg))
       (m_physicsManager s) (newSceneGraph env) (physicsConfigFile cfg)
       (rm_compressTextures env (compressTextures cfg) (m_resourceManager s))"

text \<open>The name under which \<^verbatim>\<open>reconfigure\<close> looks for the semantic mesh (lines 117, 118).\<close>

definition semanticMeshFilenameOf :: "('g, 'p, 'r) Env \<Rightarrow> SimulatorConfiguration \<Rightarrow> string" where
  "semanticMeshFilenameOf env cfg =
     io_removeExtension env (houseFilenameOf env cfg) @ ''_semantic.ply''"

section \<open>Object operations of the simulator\<close>

text \<open>Every operation carries the same test, written out in each as in the source.
  \<^verbatim>\<open>addObject\<close> is the one that asks the scene manager for a graph.\<close>

definition addObject ::
  "('g, 'p, 'r) Env \<Rightarrow> int \<Rightarrow> int \<Rightarrow> ('g, 'p, 'r) Simulator \<Rightarrow>
     error + int \<times> ('g, 'p, 'r) Simulator" where
  "addObject env objectLibIndex sceneID s =
     (if m_physicsManager s \<noteq> None \<and> sceneID \<ge> 0 \<and> nat sceneID < length (m_sceneID s)
      then (case getSceneGraph (m_sceneManager s) sceneID of
              None \<Rightarrow> Inl OutOfRange
            | Some g \<Rightarrow>
                let (newObj, g', pm') =
                      pm_addObject env objectLibIndex g (the (m_physicsManager s))
                in Inr (newObj, s\<lparr>m_sceneManager := putSceneGraph (m_sceneManager s) sceneID g',
                                   m_physicsManager := Some pm'\<rparr>))
      else Inr (ID_UNDEFINED, s))"

definition removeObject ::
  "('g, 'p, 'r) Env \<Rightarrow> int \<Rightarrow> int \<Rightarrow> ('g, 'p, 'r) Simulator \<Rightarrow> ('g, 'p, 'r) Simulator" where
  "removeObject env objectID sceneID s =
     (if m_physicsManager s \<noteq> None \<and> sceneID \<ge> 0 \<and> nat sceneID < length (m_sceneID s)
      then s\<lparr>m_physicsManager := Some (pm_removeObject env objectID (the (m_physicsManager s)))\<rparr>
      else s)"

definition applyTorque ::
  "('g, 'p, 'r) Env \<Rightarrow> Vector3 \<Rightarrow> int \<Rightarrow> int \<Rightarrow> ('g, 'p, 'r) Simulator \<Rightarrow>
     ('g, 'p, 'r) Simulator" where
  "applyTorque env tau objectID sceneID s =
     (if m_physicsManager s \<noteq> None \<and> sceneID \<ge> 0 \<and> nat sceneID < length (m_sceneID s)
      then s\<lparr>m_physicsManager := Some (pm_applyTorque env objectID tau (the (m_physicsManager s)))\<rparr>
      else s)"

definition applyForce ::
  "('g, 'p, 'r) Env \<Rightarrow> Vector3 \<Rightarrow> Vector3 \<Rightarrow> int \<Rightarrow> int \<Rightarrow> ('g, 'p, 'r) Simulator \<Rightarrow>
     ('g, 'p, 'r) Simulator" where
  "applyForce env force relPos objectID sceneID s =
     (if m_physicsManager s \<noteq> None \<and> sceneID \<ge> 0 \<and> nat sceneID < length (m_sceneID s)
      then s\<lparr>m_physicsManager :=
               Some (pm_applyForce env objectID force relPos (the (m_physicsManager s)))\<rparr>
      else s)"

definition setTransformation ::
  "('g, 'p, 'r) Env \<Rightarrow> Matrix4 \<Rightarrow> int \<Rightarrow> int \<Rightarrow> ('g, 'p, 'r) Simulator \<Rightarrow>
     ('g, 'p, 'r) Simulator" where
  "setTransformation env transform objectID sceneID s =
     (if m_physicsManager s \<noteq> None \<and> sceneID \<ge> 0 \<and> nat sceneID < length (m_sceneID s)
      then s\<lparr>m_physicsManager :=
               Some (pm_setTransformation env objectID transform (the (m_physicsManager s)))\<rparr>
      else s)"

definition getTransformation ::
  "('g, 'p, 'r) Env \<Rightarrow> int \<Rightarrow> int \<Rightarrow> ('g, 'p, 'r) Simulator \<Rightarrow>
     Matrix4 \<times> ('g, 'p, 'r) Simulator" where
  "getTransformation env objectID sceneID s =
     (if m_physicsManager s \<noteq> None \<and> sceneID \<ge> 0 \<and> nat sceneID < length (m_sceneID s)
      then (let (v, pm') = pm_getTransformation env objectID (the (m_physicsManager s))
            in (v, s\<lparr>m_physicsManager := Some pm'\<rparr>))
      else (fromDiagonal (Vector4_fill 1), s))"

definition setTranslation ::
  "('g, 'p, 'r) Env \<Rightarrow> Vector3 \<Rightarrow> int \<Rightarrow> int \<Rightarrow> ('g, 'p, 'r) Simulator \<Rightarrow>
     ('g, 'p, 'r) Simulator" where
  "setTranslation env translation objectID sceneID s =
     (if m_physicsManager s \<noteq> None \<and> sceneID \<ge> 0 \<and> nat sceneID < length (m_sceneID s)
      then s\<lparr>m_physicsManager :=
               Some (pm_setTranslation env objectID translation (the (m_physicsManager s)))\<rparr>
      else s)"

definition getTranslation ::
  "('g, 'p, 'r) Env \<Rightarrow> int \<Rightarrow> int \<Rightarrow> ('g, 'p, 'r) Simulator \<Rightarrow>
     Vector3 \<times> ('g, 'p, 'r) Simulator" where
  "getTranslation env objectID sceneID s =
     (if m_physicsManager s \<noteq> None \<and> sceneID \<ge> 0 \<and> nat sceneID < length (m_sceneID s)
      then (let (v, pm') = pm_getTranslation env objectID (the (m_physicsManager s))
            in (v, s\<lparr>m_physicsManager := Some pm'\<rparr>))
      else (Vector3_default, s))"

definition setRotation ::
  "('g, 'p, 'r) Env \<Rightarrow> Quaternion \<Rightarrow> int \<Rightarrow> int \<Rightarrow> ('g, 'p, 'r) Simulator \<Rightarrow>
     ('g, 'p, 'r) Simulator" where
  "setRotation env rotation objectID sceneID s =
     (if m_physicsManager s \<noteq> None \<and> sceneID \<ge> 0 \<and> nat sceneID < length (m_sceneID s)
      then s\<lparr>m_physicsManager :=
               Some (pm_setRotation env objectID rotation (the (m_physicsManager s)))\<rparr>
      else s)"

definition getRotation ::
  "('g, 'p, 'r) Env \<Rightarrow> int \<Rightarrow> int \<Rightarrow> ('g, 'p, 'r) Simulator \<Rightarrow>
     Quaternion \<times> ('g, 'p, 'r) Simulator" where
  "getRotation env objectID sceneID s =
     (if m_physicsManager s \<noteq> None \<and> sceneID \<ge> 0 \<and> nat sceneID < length (m_sceneID s)
      then (let (v, pm') = pm_getRotation env objectID (the (m_physicsManager s))
            in (v, s\<lparr>m_physicsManager := Some pm'\<rparr>))
      else (Quaternion_default, s))"

text \<open>The test of the specification: a physics world is bound and the scene id is one of
  the graphs allocated so far.\<close>

definition accepted :: "('g, 'p, 'r) Simulator \<Rightarrow> int \<Rightarrow> bool" where
  "accepted s sceneID \<longleftrightarrow>
     m_physicsManager s \<noteq> None \<and> 0 \<le> sceneID \<and> sceneID < int (length (m_sceneManager s))"

text \<open>Every graph the scene manager has allocated was recorded in \<^verbatim>\<open>sceneID_\<close>, under its
  handle.\<close>

definition graphsRecorded :: "('g, 'p, 'r) Simulator \<Rightarrow> bool" where
  "graphsRecorded s \<longleftrightarrow> m_sceneID s = map int [0..<length (m_sceneManager s)]"

section \<open>Stand-ins for the collaborators, for the examples\<close>

text \<open>
  A small, executable environment: \<open>files\<close> are the paths that exist, \<open>loadable\<close>
  the assets the resource manager loads with success, \<open>types\<close> the classification of
  the paths (\<^const>\<open>UNKNOWN\<close> where it says nothing). A scene graph is the list of the
  assets loaded into it, the resource manager the list of all the assets it was asked to
  load, a physics world the list of the ids of its objects.
\<close>

definition stripExtension :: "string \<Rightarrow> string" where
  "stripExtension f =
     (if CHR ''.'' \<in> set f then rev (tl (dropWhile (\<lambda>c. c \<noteq> CHR ''.'') (rev f))) else f)"

definition exampleEnv ::
  "string list \<Rightarrow> string list \<Rightarrow> (string \<rightharpoonup> AssetType) \<Rightarrow> (string list, int list, string list) Env" where
  "exampleEnv files loadable types =
     \<lparr>io_exists = (\<lambda>f. f \<in> set files),
      io_changeExtension = (\<lambda>f e. stripExtension f @ e),
      io_removeExtension = stripExtension,
      fromPath = (\<lambda>f. \<lparr>type = (case types f of Some t \<Rightarrow> t | None \<Rightarrow> UNKNOWN), filepath = f\<rparr>),
      newSceneGraph = [],
      rm_compressTextures = (\<lambda>b r. r),
      rm_loadScene = (\<lambda>info g r. (filepath info \<in> set loadable, g @ [filepath info], r @ [filepath info])),
      rm_loadScenePhysics =
        (\<lambda>info pm g physicsFile r.
           (filepath info \<in> set loadable, Some [], g @ [filepath info], r @ [filepath info])),
      pm_reset = (\<lambda>p. p),
      pm_addObject = (\<lambda>i g p. (int (length p), g, p @ [int (length p)])),
      pm_removeObject = (\<lambda>i p. removeAll i p),
      pm_applyTorque = (\<lambda>i t p. p),
      pm_applyForce = (\<lambda>i f r p. p),
      pm_setTransformation = (\<lambda>i m p. p),
      pm_getTransformation = (\<lambda>i p. (identity_Matrix4, p)),
      pm_setTranslation = (\<lambda>i v p. p),
      pm_getTranslation = (\<lambda>i p. (Vector3_default, p)),
      pm_setRotation = (\<lambda>i q p. p),
      pm_getRotation = (\<lambda>i p. (Quaternion_default, p))\<rparr>"

text \<open>A simulator before its first \<^verbatim>\<open>reconfigure\<close>, holding a configuration for the
  scene \<open>none\<close>.\<close>

definition exampleSimulator :: "(string list, int list, string list) Simulator" where
  "exampleSimulator = newSimulator (exampleConfig ''none'') []"

text \<open>A plain scene \<open>a.glb\<close> that exists and loads; the same with physics enabled;
  and an environment in which no file exists and nothing loads.\<close>

definition env_plain :: "(string list, int list, string list) Env" where
  "env_plain = exampleEnv [''a.glb''] [''a.glb''] Map.empty"

definition cfg_plain :: SimulatorConfiguration where
  "cfg_plain = exampleConfig ''a.glb''"

definition cfg_physics :: SimulatorConfiguration where
  "cfg_physics = (exampleConfig ''a.glb'')\<lparr>enablePhysics := True\<rparr>"

definition env_missing :: "(string list, int list, string list) Env" where
  "env_missing = exampleEnv [] [] Map.empty"

text \<open>A Matterport-style scene \<open>m.glb\<close> with its house file and its semantic mesh; the
  semantic mesh exists but does not load.\<close>

definition env_mp3d :: "(string list, int list, string list) Env" where
  "env_mp3d = exampleEnv [''m.glb'', ''m.house'', ''m_semantic.ply''] [''m.glb''] Map.empty"

definition cfg_mp3d :: SimulatorConfiguration where
  "cfg_mp3d = exampleConfig ''m.glb''"

text \<open>A SUNCG scene \<open>house.json\<close> whose configuration names an existing house file.\<close>

definition env_suncg :: "(string list, int list, string list) Env" where
  "env_suncg =
     exampleEnv [''house.json'', ''mp3d.house''] [''house.json'']
       [''house.json'' \<mapsto> SUNCG_SCENE]"

definition cfg_suncg :: SimulatorConfiguration where
  "cfg_suncg =
     (exampleConfig ''house.json'')
       \<lparr>scene := (exampleScene ''house.json'')\<lparr>filepaths := [(''house'', ''mp3d.house'')]\<rparr>\<rparr>"

text \<open>An instance mesh \<open>c_semantic.ply\<close>, with and without a renderer, and with a
  configuration that names the house file \<open>b.house\<close>, beside which the semantic mesh
  \<open>b_semantic.ply\<close> exists but does not load.\<close>

definition env_instance :: "(string list, int list, string list) Env" where
  "env_instance =
     exampleEnv [''c_semantic.ply'', ''b.house'', ''b_semantic.ply''] [''c_semantic.ply'']
       [''c_semantic.ply'' \<mapsto> INSTANCE_MESH]"

definition cfg_instance :: SimulatorConfiguration where
  "cfg_instance = exampleConfig ''c_semantic.ply''"

definition cfg_instance_norenderer :: SimulatorConfiguration where
  "cfg_instance_norenderer = (exampleConfig ''c_semantic.ply'')\<lparr>createRenderer := False\<rparr>"

definition cfg_instance_house :: SimulatorConfiguration where
  "cfg_instance_house =
     (exampleConfig ''c_semantic.ply'')
       \<lparr>scene := (exampleScene ''c_semantic.ply'')\<lparr>filepaths := [(''house'', ''b.house'')]\<rparr>\<rparr>"

text \<open>A sensor of 480 rows and 640 columns without a render target, and a projection
  matrix (the list of its columns) with \<open>P[2][2] = 3\<close> and \<open>P[3][2] = 4\<close>.\<close>

definition exampleSensor :: Sensor where
  "exampleSensor =
     \<lparr>m_spec = \<lparr>uuid = ''rgba_camera'', resolution = (480, 640), channels = 4\<rparr>,
      m_tgt = None\<rparr>"


section \<open>Theorems\<close>

subsection \<open>Configuration equality\<close>

lemma operator_eq_fields:
  "operator_eq a b \<longleftrightarrow>
     scene a = scene b \<and> defaultAgentId a = defaultAgentId b \<and>
     defaultCameraUuid a = defaultCameraUuid b \<and>
     compressTextures a = compressTextures b \<and> createRenderer a = createRenderer b \<and>
     enablePhysics a = enablePhysics b \<and> physicsConfigFile a = physicsConfigFile b"
  by (simp add: operator_eq_def scene_eq_def string_compare_is_zero_def)

lemma operator_eq_refl: "operator_eq a a"
  by (simp add: operator_eq_fields)

text \<open>
  C1 (the code departs from the claim). The claim lists the GPU device and the requested
  framebuffer width and height among the fields that equality compares. The operator
  compares neither: two configurations that differ in the width alone are equal for it.
\<close>

theorem operator_eq_ignores_width:
  "operator_eq (exampleConfig ''a.glb'') ((exampleConfig ''a.glb'')\<lparr>width := 800\<rparr>) \<and>
   width (exampleConfig ''a.glb'') \<noteq> width ((exampleConfig ''a.glb'')\<lparr>width := 800\<rparr>)"
  by (simp add: operator_eq_fields exampleConfig_def)

subsection \<open>Depth unprojection\<close>










subsection \<open>Sensor\<close>

text \<open>
  C8. For a resolution of \<open>rows\<close> by \<open>cols\<close> (H x W) the framebuffer size is
  \<open>(cols, rows)\<close>; binding a render target of another size throws, and the sensor is
  as it was; binding one of this size succeeds and the sensor holds it.
\<close>

theorem framebufferSize_bindRenderTarget:
  "resolution (m_spec sn) = (rows, cols) \<Longrightarrow>
   framebufferSize sn = (cols, rows) \<and>
   (rt_framebufferSize tgt \<noteq> (cols, rows) \<longrightarrow>
      bindRenderTarget tgt sn = Inl (RuntimeError ''RenderTarget is not the correct size'')) \<and>
   (rt_framebufferSize tgt = (cols, rows) \<longrightarrow>
      bindRenderTarget tgt sn = Inr (sn\<lparr>m_tgt := Some tgt\<rparr>) \<and>
      renderTarget (sn\<lparr>m_tgt := Some tgt\<rparr>) = Inr tgt)"
  by (simp add: framebufferSize_def bindRenderTarget_def renderTarget_def hasRenderTarget_def)

theorem framebufferSize_bindRenderTarget_witness:
  "framebufferSize exampleSensor = (640, 480) \<and>
   bindRenderTarget \<lparr>rt_framebufferSize = (480, 640)\<rparr> exampleSensor =
     Inl (RuntimeError ''RenderTarget is not the correct size'') \<and>
   bindRenderTarget \<lparr>rt_framebufferSize = (640, 480)\<rparr> exampleSensor =
     Inr (exampleSensor\<lparr>m_tgt := Some \<lparr>rt_framebufferSize = (640, 480)\<rparr>\<rparr>)"
proof -
  have h: "resolution (m_spec exampleSensor) = (480, 640)"
    by (simp add: exampleSensor_def)
  from framebufferSize_bindRenderTarget [OF h, of "\<lparr>rt_framebufferSize = (480, 640)\<rparr>"]
       framebufferSize_bindRenderTarget [OF h, of "\<lparr>rt_framebufferSize = (640, 480)\<rparr>"]
  show ?thesis by simp
qed

subsection \<open>The scene manager and reset\<close>

lemma getSceneGraph_fresh [simp]:
  "getSceneGraph (sm @ [g]) (int (length sm)) = Some g"
  by (simp add: getSceneGraph_def)

lemma putSceneGraph_fresh [simp]:
  "putSceneGraph (sm @ [g]) (int (length sm)) g' = sm @ [g']"
  by (simp add: putSceneGraph_def)

lemma getSceneGraph_second [simp]:
  "getSceneGraph (sm @ [g1, g2]) (1 + int (length sm)) = Some g2"
  "getSceneGraph (sm @ [g1, g2]) (int (length sm) + 1) = Some g2"
  by (simp_all add: getSceneGraph_def nth_append nat_add_distrib)

lemma putSceneGraph_second [simp]:
  "putSceneGraph (sm @ [g1, g2]) (1 + int (length sm)) g' = sm @ [g1, g']"
  "putSceneGraph (sm @ [g1, g2]) (int (length sm) + 1) g' = sm @ [g1, g']"
  by (simp_all add: putSceneGraph_def list_update_append nat_add_distrib)

lemma length_putSceneGraph [simp]:
  "length (putSceneGraph sm i g) = length sm"
  by (simp add: putSceneGraph_def)

lemma reset_fields [simp]:
  "m_config (reset env s) = m_config s"
  "m_sceneManager (reset env s) = m_sceneManager s"
  "m_sceneID (reset env s) = m_sceneID s"
  "m_activeSceneID (reset env s) = m_activeSceneID s"
  "m_activeSemanticSceneID (reset env s) = m_activeSemanticSceneID s"
  "m_context (reset env s) = m_context s"
  "m_renderer (reset env s) = m_renderer s"
  "m_resourceManager (reset env s) = m_resourceManager s"
  "m_semanticScene (reset env s) = m_semanticScene s"
  by (simp_all add: reset_def)

text \<open>\<^const>\<open>reset\<close> writes the physics manager and nothing else.\<close>

lemma reset_eq:
  "reset env s = s\<lparr>m_physicsManager := map_option (pm_reset env) (m_physicsManager s)\<rparr>"
  by (cases "m_physicsManager s") (simp_all add: reset_def)

lemma reconfigure_unchanged:
  "operator_eq cfg (m_config s) \<Longrightarrow> reconfigure env cfg s = Returns (reset env s)"
  by (simp add: reconfigure_def)

lemmas reconfigure_defs = reconfigure_def reconfigure_renderer_def loadSemanticMesh_def
  primaryLoad_def initSceneGraph_def semanticMeshFilenameOf_def Let_def split_beta

subsection \<open>Reconfigure with an unchanged configuration\<close>

text \<open>
  C2. When the configuration passed to \<^const>\<open>reconfigure\<close> is the stored one (or is
  equal to it for \<^const>\<open>operator_eq\<close>), the call returns after a \<^const>\<open>reset\<close> and
  nothing else: the state differs from the one before in the physics manager at most, so
  no scene graph is allocated, the resource manager has loaded nothing, and the active
  scene graph id and the list of scene graph ids are as before.
\<close>

theorem reconfigure_same_configuration:
  "cfg = m_config s \<or> operator_eq cfg (m_config s) \<Longrightarrow>
   reconfigure env cfg s = Returns (reset env s) \<and>
   reset env s = s\<lparr>m_physicsManager := map_option (pm_reset env) (m_physicsManager s)\<rparr> \<and>
   m_sceneManager (reset env s) = m_sceneManager s \<and>
   m_resourceManager (reset env s) = m_resourceManager s \<and>
   m_activeSceneID (reset env s) = m_activeSceneID s \<and>
   m_sceneID (reset env s) = m_sceneID s"
  using operator_eq_refl [of cfg] reset_eq [of env s] by (auto simp: reconfigure_unchanged)

theorem reconfigure_same_configuration_witness:
  "cfg_plain = m_config (stateOf (reconfigure env_plain cfg_plain exampleSimulator)) \<and>
   reconfigure env_plain cfg_plain (stateOf (reconfigure env_plain cfg_plain exampleSimulator)) =
     Returns (reset env_plain (stateOf (reconfigure env_plain cfg_plain exampleSimulator))) \<and>
   m_sceneID (reset env_plain (stateOf (reconfigure env_plain cfg_plain exampleSimulator))) =
     m_sceneID (stateOf (reconfigure env_plain cfg_plain exampleSimulator))"
proof -
  have h: "cfg_plain = m_config (stateOf (reconfigure env_plain cfg_plain exampleSimulator))"
    by code_simp
  from h reconfigure_same_configuration
    [of cfg_plain "stateOf (reconfigure env_plain cfg_plain exampleSimulator)" env_plain]
  show ?thesis by blast
qed

subsection \<open>Failure of the primary load\<close>

text \<open>
  C6. When \<^const>\<open>reconfigure\<close> gets as far as the load of the primary scene asset (the
  configuration differs from the stored one and asks for a renderer) and the resource
  manager reports failure, the call throws \<open>Cannot load: <file>\<close>. It throws at that
  point: the resource manager is as that one load left it, no second graph has been
  allocated and the semantic scene has not been touched.
\<close>

theorem reconfigure_load_failure_throws:
  "\<not> operator_eq cfg (m_config s) \<Longrightarrow> createRenderer cfg \<Longrightarrow>
   \<not> fst (primaryLoad env cfg s) \<Longrightarrow>
   reconfigure env cfg s =
     Throws (InvalidArgument (''Cannot load: '' @ sceneFilenameOf cfg))
       (stateOf (reconfigure env cfg s)) \<and>
   m_resourceManager (stateOf (reconfigure env cfg s)) = snd (snd (snd (primaryLoad env cfg s))) \<and>
   m_semanticScene (stateOf (reconfigure env cfg s)) = m_semanticScene s \<and>
   length (m_sceneManager (stateOf (reconfigure env cfg s))) = length (m_sceneManager s) + 1"
  by (simp add: reconfigure_defs)

theorem reconfigure_load_failure_throws_witness:
  "\<not> operator_eq cfg_plain (m_config exampleSimulator) \<and> createRenderer cfg_plain \<and>
   \<not> fst (primaryLoad env_missing cfg_plain exampleSimulator) \<and>
   reconfigure env_missing cfg_plain exampleSimulator =
     Throws (InvalidArgument ''Cannot load: a.glb'')
       (stateOf (reconfigure env_missing cfg_plain exampleSimulator))"
proof -
  have h1: "\<not> operator_eq cfg_plain (m_config exampleSimulator)" by code_simp
  have h2: "createRenderer cfg_plain" by code_simp
  have h3: "\<not> fst (primaryLoad env_missing cfg_plain exampleSimulator)" by code_simp
  have e: "sceneFilenameOf cfg_plain = ''a.glb''" by code_simp
  from h1 h2 h3 e reconfigure_load_failure_throws [OF h1 h2 h3] show ?thesis by simp
qed

text \<open>
  C10. The configuration is stored before the load. When the load fails, the call throws
  with the failed configuration stored; a second call with this configuration, whatever
  the environment then is, returns after a \<^const>\<open>reset\<close>: the resource manager and the
  scene graphs are as the failed call left them, so the load is not attempted again.
\<close>

theorem failed_reconfigure_keeps_configuration:
  "\<not> operator_eq cfg (m_config s) \<Longrightarrow> createRenderer cfg \<Longrightarrow>
   \<not> fst (primaryLoad env cfg s) \<Longrightarrow>
   \<not> returned (reconfigure env cfg s) \<and>
   m_config (stateOf (reconfigure env cfg s)) = cfg \<and>
   reconfigure env2 cfg (stateOf (reconfigure env cfg s)) =
     Returns (reset env2 (stateOf (reconfigure env cfg s))) \<and>
   m_resourceManager (reset env2 (stateOf (reconfigure env cfg s))) =
     m_resourceManager (stateOf (reconfigure env cfg s)) \<and>
   m_sceneManager (reset env2 (stateOf (reconfigure env cfg s))) =
     m_sceneManager (stateOf (reconfigure env cfg s))"
proof -
  assume a: "\<not> operator_eq cfg (m_config s)" "createRenderer cfg"
    "\<not> fst (primaryLoad env cfg s)"
  have 1: "\<not> returned (reconfigure env cfg s)"
    using a by (simp add: reconfigure_defs)
  have 2: "m_config (stateOf (reconfigure env cfg s)) = cfg"
    using a by (simp add: reconfigure_defs)
  have 3: "reconfigure env2 cfg (stateOf (reconfigure env cfg s)) =
     Returns (reset env2 (stateOf (reconfigure env cfg s)))"
    using 2 operator_eq_refl [of cfg] by (simp add: reconfigure_unchanged)
  from 1 2 3 show ?thesis by simp
qed

text \<open>The asset \<open>a.glb\<close> is missing at the first call and loadable at the second; the
  second call does not load it.\<close>

theorem failed_reconfigure_keeps_configuration_witness:
  "\<not> operator_eq cfg_plain (m_config exampleSimulator) \<and> createRenderer cfg_plain \<and>
   \<not> fst (primaryLoad env_missing cfg_plain exampleSimulator) \<and>
   fst (primaryLoad env_plain cfg_plain
          (stateOf (reconfigure env_missing cfg_plain exampleSimulator))) \<and>
   \<not> returned (reconfigure env_missing cfg_plain exampleSimulator) \<and>
   reconfigure env_plain cfg_plain (stateOf (reconfigure env_missing cfg_plain exampleSimulator)) =
     Returns (reset env_plain (stateOf (reconfigure env_missing cfg_plain exampleSimulator)))"
proof -
  have h1: "\<not> operator_eq cfg_plain (m_config exampleSimulator)" by code_simp
  have h2: "createRenderer cfg_plain" by code_simp
  have h3: "\<not> fst (primaryLoad env_missing cfg_plain exampleSimulator)" by code_simp
  have e: "fst (primaryLoad env_plain cfg_plain
                  (stateOf (reconfigure env_missing cfg_plain exampleSimulator)))"
    by code_simp
  from h1 h2 h3 e failed_reconfigure_keeps_configuration [OF h1 h2 h3, of env_plain]
  show ?thesis by simp
qed

subsection \<open>The semantic scene and the semantic scene graph\<close>

text \<open>
  C4 (as stated, refuted). The two tests in lines 145 and 150 are independent: for a
  SUNCG scene whose configuration names an existing house file, both house loaders run
  on the semantic scene in the same call.
\<close>

theorem semantic_loaders_both_run:
  "returned (reconfigure env_suncg cfg_suncg exampleSimulator) \<and>
   m_semanticScene (stateOf (reconfigure env_suncg cfg_suncg exampleSimulator)) =
     Some [Mp3dHouse ''mp3d.house'', SuncgHouse ''house.json'']"
  by code_simp

text \<open>The semantic scene is written in lines 143 to 152 only: the renderer part of
  \<^const>\<open>reconfigure\<close> leaves it as it is, whether it returns or throws.\<close>

lemma reconfigure_semantic_scene:
  "m_semanticScene (reconfigure_semantic env sf hf info s) =
     Some ((if io_exists env hf then [Mp3dHouse hf] else []) @
           (if type info = SUNCG_SCENE then [SuncgHouse sf] else []))"
  by (simp add: reconfigure_semantic_def)

lemma loadSemanticMesh_semanticScene:
  "m_semanticScene (stateOf (loadSemanticMesh env f s)) = m_semanticScene s"
  by (simp add: loadSemanticMesh_def initSceneGraph_def Let_def split_beta split: option.splits)

lemma reconfigure_renderer_semanticScene:
  "m_semanticScene (stateOf (reconfigure_renderer env cfg sf hf info s)) = m_semanticScene s"
proof -
  have a: "\<And>f t. m_semanticScene (stateOf (loadSemanticMesh env f t)) = m_semanticScene t"
    by (rule loadSemanticMesh_semanticScene)
  show ?thesis
    unfolding reconfigure_renderer_def Let_def split_beta
    by (auto split: option.splits outcome.splits if_splits
        dest: arg_cong [where f = "\<lambda>r. m_semanticScene (stateOf r)"] simp: a)
qed

text \<open>
  C4 (amended). A call of \<^const>\<open>reconfigure\<close> with a changed configuration that returns
  builds a new semantic scene; on it the Matterport-style loader runs exactly when the
  house file exists, and the SUNCG loader runs, after it, exactly when the asset is
  classified as \<^const>\<open>SUNCG_SCENE\<close>; both run when both conditions hold. In a call that is
  short-circuited or throws no loader runs: the semantic scene is the one before the call.
\<close>

theorem semantic_loaders_selected:
  "m_semanticScene (stateOf (reconfigure env cfg s)) =
     (if \<not> operator_eq cfg (m_config s) \<and> returned (reconfigure env cfg s)
      then Some ((if io_exists env (houseFilenameOf env cfg)
                  then [Mp3dHouse (houseFilenameOf env cfg)] else []) @
                 (if type (fromPath env (sceneFilenameOf cfg)) = SUNCG_SCENE
                  then [SuncgHouse (sceneFilenameOf cfg)] else []))
      else m_semanticScene s)"
proof (cases "operator_eq cfg (m_config s)")
  case True
  then show ?thesis by (simp add: reconfigure_unchanged)
next
  case False
  let ?sf = "sceneFilenameOf cfg" and ?hf = "houseFilenameOf env cfg"
  let ?info = "fromPath env ?sf"
  let ?s2 = "s\<lparr>m_config := cfg, m_sceneManager := m_sceneManager s @ [newSceneGraph env],
      m_activeSceneID := int (length (m_sceneManager s)),
      m_sceneID := m_sceneID s @ [int (length (m_sceneManager s))]\<rparr>"
  let ?r = "if createRenderer cfg then reconfigure_renderer env cfg ?sf ?hf ?info ?s2 else Returns ?s2"
  have r: "reconfigure env cfg s =
      (case ?r of Throws e s3 \<Rightarrow> Throws e s3
       | Returns s3 \<Rightarrow> Returns (reset env (reconfigure_semantic env ?sf ?hf ?info s3)))"
    using False by (simp add: reconfigure_def initSceneGraph_def Let_def)
  have u: "m_semanticScene (stateOf ?r) = m_semanticScene s"
    by (simp add: reconfigure_renderer_semanticScene)
  show ?thesis
  proof (cases ?r)
    case (Returns s3)
    then show ?thesis using False r by (simp add: reconfigure_semantic_scene)
  next
    case (Throws e s3)
    then show ?thesis using False r u by simp
  qed
qed

text \<open>A first call for the Matterport-style scene, a second call with the same
  configuration, and a call that throws because nothing loads.\<close>

theorem semantic_loaders_selected_witness:
  "\<not> operator_eq cfg_mp3d (m_config exampleSimulator) \<and>
   returned (reconfigure env_mp3d cfg_mp3d exampleSimulator) \<and>
   m_semanticScene (stateOf (reconfigure env_mp3d cfg_mp3d exampleSimulator)) =
     Some [Mp3dHouse ''m.house''] \<and>
   operator_eq cfg_mp3d (m_config (stateOf (reconfigure env_mp3d cfg_mp3d exampleSimulator))) \<and>
   m_semanticScene (stateOf (reconfigure env_mp3d cfg_mp3d
       (stateOf (reconfigure env_mp3d cfg_mp3d exampleSimulator)))) =
     Some [Mp3dHouse ''m.house''] \<and>
   \<not> returned (reconfigure env_missing cfg_mp3d exampleSimulator) \<and>
   m_semanticScene (stateOf (reconfigure env_missing cfg_mp3d exampleSimulator)) = None"
proof -
  have h1: "\<not> operator_eq cfg_mp3d (m_config exampleSimulator)"
    by code_simp
  have h2: "returned (reconfigure env_mp3d cfg_mp3d exampleSimulator)"
    by code_simp
  have e1: "io_exists env_mp3d (houseFilenameOf env_mp3d cfg_mp3d)" by code_simp
  have e2: "houseFilenameOf env_mp3d cfg_mp3d = ''m.house''" by code_simp
  have e3: "type (fromPath env_mp3d (sceneFilenameOf cfg_mp3d)) \<noteq> SUNCG_SCENE" by code_simp
  have h3: "operator_eq cfg_mp3d (m_config (stateOf (reconfigure env_mp3d cfg_mp3d exampleSimulator)))"
    by code_simp
  have h4: "\<not> returned (reconfigure env_missing cfg_mp3d exampleSimulator)"
    by code_simp
  have e4: "m_semanticScene exampleSimulator = None" by code_simp
  have a: "m_semanticScene (stateOf (reconfigure env_mp3d cfg_mp3d exampleSimulator)) =
     Some [Mp3dHouse ''m.house'']"
    using h1 h2 e1 e2 e3 semantic_loaders_selected [of env_mp3d cfg_mp3d exampleSimulator] by simp
  have b: "m_semanticScene (stateOf (reconfigure env_mp3d cfg_mp3d
       (stateOf (reconfigure env_mp3d cfg_mp3d exampleSimulator)))) =
     Some [Mp3dHouse ''m.house'']"
    using h3 a semantic_loaders_selected [of env_mp3d cfg_mp3d "stateOf (reconfigure env_mp3d cfg_mp3d exampleSimulator)"]
    by simp
  have c: "m_semanticScene (stateOf (reconfigure env_missing cfg_mp3d exampleSimulator)) = None"
    using h4 e4 semantic_loaders_selected [of env_missing cfg_mp3d exampleSimulator] by simp
  from h1 h2 h3 h4 a b c show ?thesis by simp
qed

text \<open>
  C7 (as stated, refuted). An instance mesh configured without a renderer: the primary
  graph gets the id 0 and the active semantic id stays undefined. An instance mesh whose
  configuration names a house file beside which a semantic mesh exists: a second graph
  is allocated for that mesh.
\<close>

theorem embedded_semantics_needs_renderer:
  "type (fromPath env_instance (sceneFilenameOf cfg_instance_norenderer)) = INSTANCE_MESH \<and>
   returned (reconfigure env_instance cfg_instance_norenderer exampleSimulator) \<and>
   m_activeSceneID
     (stateOf (reconfigure env_instance cfg_instance_norenderer exampleSimulator)) = 0 \<and>
   m_activeSemanticSceneID
     (stateOf (reconfigure env_instance cfg_instance_norenderer exampleSimulator)) = -1 \<and>
   type (fromPath env_instance (sceneFilenameOf cfg_instance_house)) = INSTANCE_MESH \<and>
   returned (reconfigure env_instance cfg_instance_house exampleSimulator) \<and>
   m_sceneManager (stateOf (reconfigure env_instance cfg_instance_house exampleSimulator)) =
     [[''c_semantic.ply''], [''b_semantic.ply'']]"
  by code_simp

text \<open>
  C7 (amended). For a changed configuration that asks for a renderer, whose primary
  asset loads and is classified with one of the three embedded-semantics tags,
  \<^const>\<open>reconfigure\<close> returns with the active semantic scene graph id equal to the
  active scene graph id, the id of the graph allocated for the primary asset. That is the
  only graph allocated, unless the house file and the semantic mesh beside it both exist:
  then there is a second one.
\<close>

theorem embedded_semantics_shares_graph:
  "\<not> operator_eq cfg (m_config s) \<Longrightarrow> createRenderer cfg \<Longrightarrow> fst (primaryLoad env cfg s) \<Longrightarrow>
   type (fromPath env (sceneFilenameOf cfg)) \<in> {FRL_INSTANCE_MESH, SUNCG_SCENE, INSTANCE_MESH} \<Longrightarrow>
   returned (reconfigure env cfg s) \<and>
   m_activeSceneID (stateOf (reconfigure env cfg s)) = int (length (m_sceneManager s)) \<and>
   m_activeSemanticSceneID (stateOf (reconfigure env cfg s)) =
     m_activeSceneID (stateOf (reconfigure env cfg s)) \<and>
   length (m_sceneManager (stateOf (reconfigure env cfg s))) =
     length (m_sceneManager s) +
       (if io_exists env (houseFilenameOf env cfg) \<and>
           io_exists env (semanticMeshFilenameOf env cfg)
        then 2 else 1)"
  by (simp add: reconfigure_defs reconfigure_semantic_def)

theorem embedded_semantics_shares_graph_witness:
  "\<not> operator_eq cfg_instance (m_config exampleSimulator) \<and> createRenderer cfg_instance \<and>
   fst (primaryLoad env_instance cfg_instance exampleSimulator) \<and>
   type (fromPath env_instance (sceneFilenameOf cfg_instance)) = INSTANCE_MESH \<and>
   returned (reconfigure env_instance cfg_instance exampleSimulator) \<and>
   m_activeSceneID (stateOf (reconfigure env_instance cfg_instance exampleSimulator)) = 0 \<and>
   m_activeSemanticSceneID (stateOf (reconfigure env_instance cfg_instance exampleSimulator)) = 0 \<and>
   length (m_sceneManager (stateOf (reconfigure env_instance cfg_instance exampleSimulator))) = 1"
proof -
  have h1: "\<not> operator_eq cfg_instance (m_config exampleSimulator)" by code_simp
  have h2: "createRenderer cfg_instance" by code_simp
  have h3: "fst (primaryLoad env_instance cfg_instance exampleSimulator)" by code_simp
  have t: "type (fromPath env_instance (sceneFilenameOf cfg_instance)) = INSTANCE_MESH"
    by code_simp
  have h4: "type (fromPath env_instance (sceneFilenameOf cfg_instance)) \<in>
      {FRL_INSTANCE_MESH, SUNCG_SCENE, INSTANCE_MESH}"
    using t by simp
  have e1: "\<not> io_exists env_instance (houseFilenameOf env_instance cfg_instance)"
    by code_simp
  have e2: "m_sceneManager exampleSimulator = []" by code_simp
  from h1 h2 h3 t e1 e2 embedded_semantics_shares_graph [OF h1 h2 h3 h4]
  show ?thesis by simp
qed

text \<open>
  C9 (as stated, refuted). An instance mesh whose configuration names a house file
  beside which a semantic mesh exists and fails to load: the semantic mesh gets the graph
  1, and the active semantic scene graph id is 0 when the call returns, since line 139
  overwrites it.
\<close>

theorem semantic_mesh_id_overwritten:
  "io_exists env_instance (houseFilenameOf env_instance cfg_instance_house) \<and>
   io_exists env_instance (semanticMeshFilenameOf env_instance cfg_instance_house) \<and>
   \<not> fst (rm_loadScene env_instance
            (fromPath env_instance (semanticMeshFilenameOf env_instance cfg_instance_house))
            [] [''c_semantic.ply'']) \<and>
   returned (reconfigure env_instance cfg_instance_house exampleSimulator) \<and>
   m_sceneManager (stateOf (reconfigure env_instance cfg_instance_house exampleSimulator)) =
     [[''c_semantic.ply''], [''b_semantic.ply'']] \<and>
   m_sceneID (stateOf (reconfigure env_instance cfg_instance_house exampleSimulator)) = [0, 1] \<and>
   m_activeSemanticSceneID
     (stateOf (reconfigure env_instance cfg_instance_house exampleSimulator)) = 0"
  by code_simp

text \<open>
  C9 (amended). For a changed configuration that asks for a renderer and whose primary
  asset loads, when the house file and the semantic mesh beside it exist,
  \<^const>\<open>reconfigure\<close> returns whatever the load of the semantic mesh reports: nothing
  is assumed about it. A second graph has been allocated and recorded in the list of
  ids; it is the active semantic scene graph, unless the primary asset has one of the
  three embedded-semantics tags, in which case the active semantic id is the primary id.
\<close>

theorem semantic_mesh_load_result_discarded:
  "\<not> operator_eq cfg (m_config s) \<Longrightarrow> createRenderer cfg \<Longrightarrow> fst (primaryLoad env cfg s) \<Longrightarrow>
   io_exists env (houseFilenameOf env cfg) \<Longrightarrow>
   io_exists env (semanticMeshFilenameOf env cfg) \<Longrightarrow>
   returned (reconfigure env cfg s) \<and>
   m_sceneID (stateOf (reconfigure env cfg s)) =
     m_sceneID s @ [int (length (m_sceneManager s)), int (length (m_sceneManager s)) + 1] \<and>
   length (m_sceneManager (stateOf (reconfigure env cfg s))) = length (m_sceneManager s) + 2 \<and>
   m_activeSemanticSceneID (stateOf (reconfigure env cfg s)) =
     (if type (fromPath env (sceneFilenameOf cfg)) \<in>
           {FRL_INSTANCE_MESH, SUNCG_SCENE, INSTANCE_MESH}
      then int (length (m_sceneManager s)) else int (length (m_sceneManager s)) + 1)"
  by (simp add: reconfigure_defs reconfigure_semantic_def)

text \<open>The semantic mesh \<open>m_semantic.ply\<close> exists and fails to load.\<close>

theorem semantic_mesh_load_result_discarded_witness:
  "\<not> operator_eq cfg_mp3d (m_config exampleSimulator) \<and> createRenderer cfg_mp3d \<and>
   fst (primaryLoad env_mp3d cfg_mp3d exampleSimulator) \<and>
   io_exists env_mp3d (houseFilenameOf env_mp3d cfg_mp3d) \<and>
   io_exists env_mp3d (semanticMeshFilenameOf env_mp3d cfg_mp3d) \<and>
   \<not> fst (rm_loadScene env_mp3d
            (fromPath env_mp3d (semanticMeshFilenameOf env_mp3d cfg_mp3d)) [] [''m.glb'']) \<and>
   returned (reconfigure env_mp3d cfg_mp3d exampleSimulator) \<and>
   m_sceneID (stateOf (reconfigure env_mp3d cfg_mp3d exampleSimulator)) = [0, 1] \<and>
   m_activeSemanticSceneID (stateOf (reconfigure env_mp3d cfg_mp3d exampleSimulator)) = 1"
proof -
  have h1: "\<not> operator_eq cfg_mp3d (m_config exampleSimulator)" by code_simp
  have h2: "createRenderer cfg_mp3d" by code_simp
  have h3: "fst (primaryLoad env_mp3d cfg_mp3d exampleSimulator)" by code_simp
  have h4: "io_exists env_mp3d (houseFilenameOf env_mp3d cfg_mp3d)" by code_simp
  have h5: "io_exists env_mp3d (semanticMeshFilenameOf env_mp3d cfg_mp3d)" by code_simp
  have f: "\<not> fst (rm_loadScene env_mp3d
                    (fromPath env_mp3d (semanticMeshFilenameOf env_mp3d cfg_mp3d)) [] [''m.glb''])"
    by code_simp
  have t: "type (fromPath env_mp3d (sceneFilenameOf cfg_mp3d)) = UNKNOWN" by code_simp
  have e: "m_sceneManager exampleSimulator = []" "m_sceneID exampleSimulator = []"
    by code_simp+
  from h1 h2 h3 h4 h5 f t e semantic_mesh_load_result_discarded [OF h1 h2 h3 h4 h5]
  show ?thesis by simp
qed

subsection \<open>Object operations\<close>

text \<open>\<^const>\<open>graphsRecorded\<close> holds before the first \<^const>\<open>reconfigure\<close> and after every
  call of it, returned or thrown; the object operations keep it.\<close>

lemma graphsRecorded_newSimulator: "graphsRecorded (newSimulator cfg0 rm)"
  by (simp add: graphsRecorded_def newSimulator_def)

lemma graphsRecorded_reconfigure:
  "graphsRecorded s \<Longrightarrow> graphsRecorded (stateOf (reconfigure env cfg s))"
  by (simp add: graphsRecorded_def reconfigure_defs reconfigure_semantic_def)

lemma graphsRecorded_physicsManager [simp]:
  "graphsRecorded (s\<lparr>m_physicsManager := pm\<rparr>) = graphsRecorded s"
  by (simp add: graphsRecorded_def)

lemma graphsRecorded_addObject:
  "graphsRecorded s \<Longrightarrow> addObject env i sceneID s = Inr (newObj, s') \<Longrightarrow> graphsRecorded s'"
  by (auto simp: addObject_def graphsRecorded_def split_beta split: if_splits option.splits)

lemma accepted_iff:
  "graphsRecorded s \<Longrightarrow>
   (m_physicsManager s \<noteq> None \<and> sceneID \<ge> 0 \<and> nat sceneID < length (m_sceneID s)) =
     accepted s sceneID"
  by (auto simp: graphsRecorded_def accepted_def)

lemma accepted_getSceneGraph:
  "accepted s sceneID \<Longrightarrow>
   getSceneGraph (m_sceneManager s) sceneID = Some (m_sceneManager s ! nat sceneID)"
  by (auto simp: getSceneGraph_def accepted_def)

text \<open>
  C3. In a state in which the graphs allocated are the ones recorded, each of the ten
  operations forwards to the physics manager exactly when a physics world is bound and
  \<open>0 \<le> sceneID < number of graphs allocated\<close>. Otherwise the state is unchanged and
  the result is the sentinel: \<^const>\<open>ID_UNDEFINED\<close> for \<^const>\<open>addObject\<close>, the identity
  matrix, the zero vector and the identity rotation for the getters; no operation throws
  (\<^const>\<open>addObject\<close>, the only one that could, returns with \<open>Inr\<close> in both cases).
\<close>

theorem object_operations_validation:
  "graphsRecorded s \<Longrightarrow>
   addObject env objectLibIndex sceneID s =
     (if accepted s sceneID
      then (let (newObj, g', pm') =
                  pm_addObject env objectLibIndex (m_sceneManager s ! nat sceneID)
                    (the (m_physicsManager s))
            in Inr (newObj, s\<lparr>m_sceneManager := (m_sceneManager s)[nat sceneID := g'],
                               m_physicsManager := Some pm'\<rparr>))
      else Inr (ID_UNDEFINED, s)) \<and>
   removeObject env objectID sceneID s =
     (if accepted s sceneID
      then s\<lparr>m_physicsManager :=
               Some (pm_removeObject env objectID (the (m_physicsManager s)))\<rparr>
      else s) \<and>
   applyForce env force relPos objectID sceneID s =
     (if accepted s sceneID
      then s\<lparr>m_physicsManager :=
               Some (pm_applyForce env objectID force relPos (the (m_physicsManager s)))\<rparr>
      else s) \<and>
   applyTorque env tau objectID sceneID s =
     (if accepted s sceneID
      then s\<lparr>m_physicsManager :=
               Some (pm_applyTorque env objectID tau (the (m_physicsManager s)))\<rparr>
      else s) \<and>
   setTransformation env transform objectID sceneID s =
     (if accepted s sceneID
      then s\<lparr>m_physicsManager :=
               Some (pm_setTransformation env objectID transform (the (m_physicsManager s)))\<rparr>
      else s) \<and>
   setTranslation env translation objectID sceneID s =
     (if accepted s sceneID
      then s\<lparr>m_physicsManager :=
               Some (pm_setTranslation env objectID translation (the (m_physicsManager s)))\<rparr>
      else s) \<and>
   setRotation env rotation objectID sceneID s =
     (if accepted s sceneID
      then s\<lparr>m_physicsManager :=
               Some (pm_setRotation env objectID rotation (the (m_physicsManager s)))\<rparr>
      else s) \<and>
   getTransformation env objectID sceneID s =
     (if accepted s sceneID
      then (fst (pm_getTransformation env objectID (the (m_physicsManager s))),
            s\<lparr>m_physicsManager :=
                Some (snd (pm_getTransformation env objectID (the (m_physicsManager s))))\<rparr>)
      else (identity_Matrix4, s)) \<and>
   getTranslation env objectID sceneID s =
     (if accepted s sceneID
      then (fst (pm_getTranslation env objectID (the (m_physicsManager s))),
            s\<lparr>m_physicsManager :=
                Some (snd (pm_getTranslation env objectID (the (m_physicsManager s))))\<rparr>)
      else ((0, 0, 0), s)) \<and>
   getRotation env objectID sceneID s =
     (if accepted s sceneID
      then (fst (pm_getRotation env objectID (the (m_physicsManager s))),
            s\<lparr>m_physicsManager :=
                Some (snd (pm_getRotation env objectID (the (m_physicsManager s))))\<rparr>)
      else (((0, 0, 0), 1), s))"
proof -
  assume inv: "graphsRecorded s"
  note g = accepted_iff [OF inv]
  have 1: "addObject env objectLibIndex sceneID s =
     (if accepted s sceneID
      then (let (newObj, g', pm') =
                  pm_addObject env objectLibIndex (m_sceneManager s ! nat sceneID)
                    (the (m_physicsManager s))
            in Inr (newObj, s\<lparr>m_sceneManager := (m_sceneManager s)[nat sceneID := g'],
                               m_physicsManager := Some pm'\<rparr>))
      else Inr (ID_UNDEFINED, s))"
    unfolding addObject_def g by (simp add: accepted_getSceneGraph putSceneGraph_def)
  have 2: "getTransformation env objectID sceneID s =
     (if accepted s sceneID
      then (fst (pm_getTransformation env objectID (the (m_physicsManager s))),
            s\<lparr>m_physicsManager :=
                Some (snd (pm_getTransformation env objectID (the (m_physicsManager s))))\<rparr>)
      else (identity_Matrix4, s))"
    unfolding getTransformation_def g
    by (simp add: split_beta fromDiagonal_def Vector4_fill_def identity_Matrix4_def)
  have 3: "getTranslation env objectID sceneID s =
     (if accepted s sceneID
      then (fst (pm_getTranslation env objectID (the (m_physicsManager s))),
            s\<lparr>m_physicsManager :=
                Some (snd (pm_getTranslation env objectID (the (m_physicsManager s))))\<rparr>)
      else ((0, 0, 0), s))"
    unfolding getTranslation_def g by (simp add: split_beta Vector3_default_def)
  have 4: "getRotation env objectID sceneID s =
     (if accepted s sceneID
      then (fst (pm_getRotation env objectID (the (m_physicsManager s))),
            s\<lparr>m_physicsManager :=
                Some (snd (pm_getRotation env objectID (the (m_physicsManager s))))\<rparr>)
      else (((0, 0, 0), 1), s))"
    unfolding getRotation_def g by (simp add: split_beta Quaternion_default_def)
  show ?thesis
    unfolding 1 2 3 4 removeObject_def applyForce_def applyTorque_def setTransformation_def
      setTranslation_def setRotation_def g
    by simp
qed

text \<open>After a \<^const>\<open>reconfigure\<close> with physics enabled there is one graph, with the id 0:
  an operation on the scene 0 is forwarded, one on the scene 1 is not.\<close>

theorem object_operations_validation_witness:
  "graphsRecorded (stateOf (reconfigure env_plain cfg_physics exampleSimulator)) \<and>
   accepted (stateOf (reconfigure env_plain cfg_physics exampleSimulator)) 0 \<and>
   \<not> accepted (stateOf (reconfigure env_plain cfg_physics exampleSimulator)) 1 \<and>
   removeObject env_plain 7 0 (stateOf (reconfigure env_plain cfg_physics exampleSimulator)) =
     (stateOf (reconfigure env_plain cfg_physics exampleSimulator))
       \<lparr>m_physicsManager := Some (pm_removeObject env_plain 7
          (the (m_physicsManager (stateOf (reconfigure env_plain cfg_physics exampleSimulator)))))\<rparr> \<and>
   addObject env_plain 0 1 (stateOf (reconfigure env_plain cfg_physics exampleSimulator)) =
     Inr (ID_UNDEFINED, stateOf (reconfigure env_plain cfg_physics exampleSimulator)) \<and>
   getTransformation env_plain 7 1 (stateOf (reconfigure env_plain cfg_physics exampleSimulator)) =
     (identity_Matrix4, stateOf (reconfigure env_plain cfg_physics exampleSimulator))"
proof -
  have h: "graphsRecorded (stateOf (reconfigure env_plain cfg_physics exampleSimulator))"
    by code_simp
  have a0: "accepted (stateOf (reconfigure env_plain cfg_physics exampleSimulator)) 0"
    by code_simp
  have a1: "\<not> accepted (stateOf (reconfigure env_plain cfg_physics exampleSimulator)) 1"
    by code_simp
  from h a0 a1
    object_operations_validation
      [OF h, where sceneID = 0 and env = env_plain and objectID = 7]
    object_operations_validation
      [OF h, where sceneID = 1 and env = env_plain and objectID = 7 and objectLibIndex = 0]
  show ?thesis by simp
qed

end
